theory Spec2Isabelle
  imports Main "HOL-Library.Sublist"
begin

section \<open>JavaScript values and strings\<close>

text \<open>
  The program is one TypeScript module, \<^verbatim>\<open>src/index.tsx\<close>: a handler for the file
  input, a handler for the convert button, and four helpers. Its strings are modelled
  as \<^typ>\<open>string\<close>; every literal of the source is ASCII except the apostrophe
  U+2019 of the base instruction, which is written as its three UTF-8 bytes.

  A template literal \<^verbatim>\<open>`${v}`\<close> applies ToString to \<open>v\<close>. The values that reach a
  template in this program are strings, \<^verbatim>\<open>undefined\<close> (a missing property, an index
  out of range), and the values every object inherits from \<^verbatim>\<open>Object.prototype\<close>:
  functions and the prototype object itself.
\<close>

datatype jsvalue =
    JSUndefined
  | JSString string
  | JSObject
  | JSFunction string

text \<open>
  ToString of a built-in function is written the way V8 prints it; ToString of a plain
  object is fixed by the language.
\<close>

fun ToString :: "jsvalue \<Rightarrow> string" where
  "ToString JSUndefined = ''undefined''"
| "ToString (JSString s) = s"
| "ToString JSObject = ''[object Object]''"
| "ToString (JSFunction f) = ''function '' @ f @ ''() { [native code] }''"

text \<open>
  \<^verbatim>\<open>s.split(',')\<close> with a one-character separator: the pieces between the
  separators, in order, so a string with no separator is the only piece.
\<close>

fun split :: "char \<Rightarrow> string \<Rightarrow> string list" where
  "split sep [] = [[]]"
| "split sep (c # cs) =
     (if c = sep then [] # split sep cs
      else (case split sep cs of
              [] \<Rightarrow> [[c]]
            | piece # pieces \<Rightarrow> (c # piece) # pieces))"

text \<open>\<^verbatim>\<open>xs[i]\<close> on an array of strings: \<^verbatim>\<open>undefined\<close> out of range.\<close>

definition index :: "string list \<Rightarrow> nat \<Rightarrow> jsvalue" where
  "index xs i = (if i < length xs then JSString (xs ! i) else JSUndefined)"

section \<open>Data model\<close>

text \<open>The fields of a \<^verbatim>\<open>File\<close> the program reads.\<close>

record File =
  name :: string
  type :: string

text \<open>
  The parts of a request and of a response (\<^verbatim>\<open>Blob\<close>, \<^verbatim>\<open>Part\<close>, \<^verbatim>\<open>Content\<close>,
  \<^verbatim>\<open>Candidate\<close> of the client library): every property is optional there, so a
  missing one is \<open>None\<close>, or \<^const>\<open>JSUndefined\<close> where a template reads it.
\<close>

record Blob =
  data :: jsvalue
  mimeType :: jsvalue

record Part =
  inlineData :: "Blob option"
  partText :: "string option"

record Content =
  parts :: "Part list option"

record Candidate =
  content :: "Content option"

record GenerateContentResponse =
  candidates :: "Candidate list option"

datatype Modality = IMAGE | TEXT

record GenerateContentParameters =
  requestModel :: string
  contents :: Content
  responseModalities :: "Modality list"

text \<open>What a \<^verbatim>\<open>catch\<close> can receive in this program.\<close>

datatype jserror =
    TypeError
  | ReadError
  | ApiError string

text \<open>
  An asynchronous operation of the platform as the program sees it at an
  \<^verbatim>\<open>await\<close>: it never settles, it rejects, or it resolves with a value.
\<close>

datatype 'a promise =
    Pending
  | Rejected jserror
  | Fulfilled 'a

text \<open>
  The two collaborators outside the module are parameters of the model:
  \<^verbatim>\<open>FileReader.readAsDataURL\<close> (its \<^verbatim>\<open>load\<close> event carries the data URL, its
  \<^verbatim>\<open>error\<close> event rejects) and \<^verbatim>\<open>ai.models.generateContent\<close>.
\<close>

record platform =
  readAsDataURL :: "File \<Rightarrow> string promise"
  generateContent :: "GenerateContentParameters \<Rightarrow> GenerateContentResponse promise"

text \<open>
  A child of the result container: markup assigned through \<^verbatim>\<open>innerHTML\<close>, or an
  image element appended to it.
\<close>

datatype node =
    Markup string
  | ImageElement string string

definition innerHTML :: "string \<Rightarrow> node list" where
  "innerHTML html = (if html = [] then [] else [Markup html])"

text \<open>
  The state the handlers read and write: the module variable \<^verbatim>\<open>uploadedFile\<close>, the
  properties of the DOM elements they touch, and a log of each effect that leaves the
  page (alerts, console errors, remote calls, file reads started for the preview).
\<close>

record state =
  uploadedFile :: "File option"
  fileInput_files :: "File list option"
  fileNameSpan_textContent :: string
  originalImage_src :: string
  comicStyleSelect_value :: string
  keepBackgroundCheck_checked :: bool
  addFrameCheck_checked :: bool
  convertButton_disabled :: bool
  convertButton_textContent :: string
  comicOutputDiv :: "node list"
  downloadButton_href :: string
  downloadButton_style_display :: string
  alerts :: "string list"
  console_errors :: "(string \<times> jserror) list"
  remoteCalls :: "GenerateContentParameters list"
  previewReads :: "File list"

definition model :: string where
  "model = ''gemini-2.5-flash-image-preview''"

section \<open>The prompt builder\<close>

definition baseInstruction :: string where
  "baseInstruction =
     ''Convert this photo into a clean, high-contrast comic illustration with inky outlines, simplified shading, and halftone texture. Preserve the subject''
     @ [CHR 0xE2, CHR 0x80, CHR 0x99]
     @ ''s identity and scene composition.''"

text \<open>The own properties of the object literal \<^verbatim>\<open>styleMap\<close>, in source order.\<close>

definition styleMap :: "(string \<times> string) list" where
  "styleMap =
     [(''manga'', ''Style it like black-and-white manga, with screentone halftone, fine linework, and dynamic speed lines.''),
      (''western'', ''Style it like a classic Western comic, with bold ink lines, flat cel-shading, and CMYK halftone dots.''),
      (''pop-art'', ''Style it like Pop-art, with a bright saturated palette, thick outlines, and prominent halftone dots for a poster look.''),
      (''cel-shade'', ''Style it with a clean cel-shaded look, using minimal outlines, smooth cel shadows, and a soft background.'')]"

text \<open>
  \<^verbatim>\<open>styleMap\<close> is an object literal, so its prototype is \<^verbatim>\<open>Object.prototype\<close> and a
  key it does not own is looked up there: the methods of the language standard, and
  the accessor \<^verbatim>\<open>__proto__\<close>, which returns the prototype object.
\<close>

definition objectPrototype :: "(string \<times> jsvalue) list" where
  "objectPrototype =
     [(''constructor'', JSFunction ''Object''),
      (''hasOwnProperty'', JSFunction ''hasOwnProperty''),
      (''isPrototypeOf'', JSFunction ''isPrototypeOf''),
      (''propertyIsEnumerable'', JSFunction ''propertyIsEnumerable''),
      (''toLocaleString'', JSFunction ''toLocaleString''),
      (''toString'', JSFunction ''toString''),
      (''valueOf'', JSFunction ''valueOf''),
      (''__defineGetter__'', JSFunction ''__defineGetter__''),
      (''__defineSetter__'', JSFunction ''__defineSetter__''),
      (''__lookupGetter__'', JSFunction ''__lookupGetter__''),
      (''__lookupSetter__'', JSFunction ''__lookupSetter__''),
      (''__proto__'', JSObject)]"

text \<open>\<^verbatim>\<open>styleMap[key]\<close>: own property first, then the prototype, else \<^verbatim>\<open>undefined\<close>.\<close>

definition styleMap_get :: "string \<Rightarrow> jsvalue" where
  "styleMap_get key =
     (case map_of styleMap key of
        Some clause \<Rightarrow> JSString clause
      | None \<Rightarrow>
          (case map_of objectPrototype key of
             Some v \<Rightarrow> v
           | None \<Rightarrow> JSUndefined))"

definition buildPrompt :: "state \<Rightarrow> string" where
  "buildPrompt s =
     (let finalPrompt = baseInstruction;
          finalPrompt = finalPrompt @ '' '' @ ToString (styleMap_get (comicStyleSelect_value s));
          finalPrompt =
            (if \<not> keepBackgroundCheck_checked s
             then finalPrompt @ '' Replace the background with a clean white background.''
             else finalPrompt);
          finalPrompt =
            (if addFrameCheck_checked s
             then finalPrompt @ '' Add a classic comic book panel frame around the image, including a small empty caption box at the bottom.''
             else finalPrompt)
      in finalPrompt)"

text \<open>
  The two optional sentences of \<^const>\<open>buildPrompt\<close>, without the space that
  separates each from what precedes it.
\<close>

definition backgroundClause :: string where
  "backgroundClause = ''Replace the background with a clean white background.''"

definition frameClause :: string where
  "frameClause =
     ''Add a classic comic book panel frame around the image, including a small empty caption box at the bottom.''"

text \<open>The four keys of \<^const>\<open>styleMap\<close>: the values of the style selector.\<close>

definition styles :: "string list" where
  "styles = map fst styleMap"

section \<open>The image codec\<close>

text \<open>
  \<^verbatim>\<open>fileToBase64\<close> wraps one read of the file in a promise: the \<^verbatim>\<open>load\<close> event
  resolves it with \<^verbatim>\<open>result.split(',')[1]\<close>, the \<^verbatim>\<open>error\<close> event rejects it.
\<close>

definition fileToBase64 :: "platform \<Rightarrow> File \<Rightarrow> jsvalue promise" where
  "fileToBase64 pf file =
     (case readAsDataURL pf file of
        Pending \<Rightarrow> Pending
      | Rejected error \<Rightarrow> Rejected error
      | Fulfilled result \<Rightarrow> Fulfilled (index (split CHR '','' result) 1))"

text \<open>The data URL that \<^verbatim>\<open>displayResult\<close> builds with its template literal.\<close>

definition imageUrl :: "jsvalue \<Rightarrow> jsvalue \<Rightarrow> string" where
  "imageUrl mimeType' base64Image =
     ''data:'' @ ToString mimeType' @ '';base64,'' @ ToString base64Image"

section \<open>The view controller\<close>

definition setLoadingState :: "bool \<Rightarrow> state \<Rightarrow> state" where
  \<open>setLoadingState isLoading s =
     (let s = s\<lparr>convertButton_disabled := isLoading\<rparr>
      in if isLoading
         then s\<lparr>convertButton_textContent := ''Converting...'',
                comicOutputDiv := innerHTML ''<div class="spinner"></div>'',
                downloadButton_style_display := ''none''\<rparr>
         else s\<lparr>convertButton_textContent := ''Convert to Comic''\<rparr>)\<close>

text \<open>
  \<^verbatim>\<open>handleFileChange\<close>, up to its return: the reader it starts is logged in
  \<^const>\<open>previewReads\<close>, and the reader's \<^verbatim>\<open>onload\<close> callback, which runs later,
  is \<open>previewLoaded\<close>.
\<close>

definition handleFileChange :: "state \<Rightarrow> state" where
  \<open>handleFileChange s =
     (case fileInput_files s of
        Some (file # rest) \<Rightarrow>
          s\<lparr>uploadedFile := Some file,
            fileNameSpan_textContent := name file,
            previewReads := previewReads s @ [file],
            convertButton_disabled := False,
            downloadButton_style_display := ''none'',
            comicOutputDiv :=
              innerHTML ''<div class="placeholder">Your comic version will appear here.</div>''\<rparr>
      | _ \<Rightarrow> s)\<close>

definition previewLoaded :: "string \<Rightarrow> state \<Rightarrow> state" where
  "previewLoaded result s = s\<lparr>originalImage_src := result\<rparr>"

text \<open>
  \<^verbatim>\<open>displayResult(parts)\<close>. The caller passes \<^verbatim>\<open>content.parts\<close>, which may be
  \<^verbatim>\<open>undefined\<close>; \<^verbatim>\<open>parts.find\<close> then throws a TypeError. An object is truthy, so
  \<^verbatim>\<open>find\<close> returns the first part that has an \<^verbatim>\<open>inlineData\<close>.
\<close>

definition displayResult :: "Part list option \<Rightarrow> state \<Rightarrow> jserror + state" where
  \<open>displayResult parts' s =
     (case parts' of
        None \<Rightarrow> Inl TypeError
      | Some ps \<Rightarrow>
          (case find (\<lambda>part. inlineData part \<noteq> None) ps of
             Some imagePart \<Rightarrow>
               (case inlineData imagePart of
                  None \<Rightarrow> Inl TypeError
                | Some blob \<Rightarrow>
                    (let base64Image = data blob;
                         mimeType' = mimeType blob;
                         url = imageUrl mimeType' base64Image
                     in Inr (s\<lparr>comicOutputDiv :=
                                 innerHTML [] @ [ImageElement url ''Generated comic-style image''],
                               downloadButton_href := url,
                               downloadButton_style_display := ''inline-block''\<rparr>)))
           | None \<Rightarrow>
               Inr (s\<lparr>comicOutputDiv :=
                         innerHTML ''<p>Could not generate an image from the response.</p>''\<rparr>)))\<close>

text \<open>
  \<^verbatim>\<open>response.candidates[0].content.parts\<close>: reading a property of \<^verbatim>\<open>undefined\<close>
  throws a TypeError; a missing \<^verbatim>\<open>parts\<close> is passed on as \<^verbatim>\<open>undefined\<close>.
\<close>

definition responseParts :: "GenerateContentResponse \<Rightarrow> jserror + Part list option" where
  "responseParts response =
     (case candidates response of
        None \<Rightarrow> Inl TypeError
      | Some [] \<Rightarrow> Inl TypeError
      | Some (candidate # _) \<Rightarrow>
          (case content candidate of
             None \<Rightarrow> Inl TypeError
           | Some c \<Rightarrow> Inr (parts c)))"

text \<open>
  How the \<^verbatim>\<open>try\<close> block of \<^verbatim>\<open>handleConvertToComic\<close> ends, with the state there: it
  is left waiting at an \<^verbatim>\<open>await\<close> that never settles, it throws, or it runs to its
  end.
\<close>

datatype completion =
    Suspended state
  | Threw jserror state
  | Completed state

definition convertRequest :: "jsvalue \<Rightarrow> string \<Rightarrow> string \<Rightarrow> GenerateContentParameters" where
  "convertRequest base64ImageData mimeType' prompt =
     \<lparr>requestModel = model,
      contents = \<lparr>parts = Some
        [\<lparr>inlineData = Some \<lparr>data = base64ImageData, mimeType = JSString mimeType'\<rparr>,
          partText = None\<rparr>,
         \<lparr>inlineData = None, partText = Some prompt\<rparr>]\<rparr>,
      responseModalities = [IMAGE, TEXT]\<rparr>"

text \<open>
  The \<^verbatim>\<open>try\<close> block for the file \<open>file\<close>, run from the state \<open>s\<close> with no other
  handler running while it waits, so each \<^verbatim>\<open>await\<close> resumes in the state it left.
\<close>

definition convertBody :: "platform \<Rightarrow> File \<Rightarrow> state \<Rightarrow> completion" where
  "convertBody pf file s =
     (case fileToBase64 pf file of
        Pending \<Rightarrow> Suspended s
      | Rejected error \<Rightarrow> Threw error s
      | Fulfilled base64ImageData \<Rightarrow>
          (let mimeType' = type file;
               prompt = buildPrompt s;
               request = convertRequest base64ImageData mimeType' prompt;
               s = s\<lparr>remoteCalls := remoteCalls s @ [request]\<rparr>
           in case generateContent pf request of
                Pending \<Rightarrow> Suspended s
              | Rejected error \<Rightarrow> Threw error s
              | Fulfilled response \<Rightarrow>
                  (case responseParts response of
                     Inl error \<Rightarrow> Threw error s
                   | Inr parts' \<Rightarrow>
                       (case displayResult parts' s of
                          Inl error \<Rightarrow> Threw error s
                        | Inr s \<Rightarrow> Completed s))))"

definition handleConvertToComic :: "platform \<Rightarrow> state \<Rightarrow> state" where
  \<open>handleConvertToComic pf s =
     (case uploadedFile s of
        None \<Rightarrow> s\<lparr>alerts := alerts s @ [''Please upload an image first.'']\<rparr>
      | Some file \<Rightarrow>
          (case convertBody pf file (setLoadingState True s) of
             Suspended s \<Rightarrow> s
           | Threw error s \<Rightarrow>
               setLoadingState False
                 (s\<lparr>console_errors :=
                      console_errors s @ [(''Error generating comic image:'', error)],
                    comicOutputDiv :=
                      innerHTML ''<p style="color: red;">An error occurred. Please try again.</p>''\<rparr>)
           | Completed s \<Rightarrow> setLoadingState False s))\<close>

text \<open>
  The same handler cut at its two \<^verbatim>\<open>await\<close>s, for runs in which other handlers run
  while it waits. Each piece takes the state as it is when the piece runs:
  \<open>convertStart\<close> is the code up to the first \<^verbatim>\<open>await\<close> and returns the file whose
  read it awaits; \<open>convertAfterRead\<close> resumes with the settled read, reads
  \<^verbatim>\<open>uploadedFile.type\<close> and the selections again, and returns the request it sends;
  \<open>convertAfterCall\<close> resumes with the settled remote call. \<open>convertFailed\<close> is the
  \<^verbatim>\<open>catch\<close> block followed by the \<^verbatim>\<open>finally\<close> block.
\<close>

definition convertFailed :: "jserror \<Rightarrow> state \<Rightarrow> state" where
  \<open>convertFailed error s =
     setLoadingState False
       (s\<lparr>console_errors := console_errors s @ [(''Error generating comic image:'', error)],
          comicOutputDiv :=
            innerHTML ''<p style="color: red;">An error occurred. Please try again.</p>''\<rparr>)\<close>

definition convertStart :: "state \<Rightarrow> state \<times> File option" where
  "convertStart s =
     (case uploadedFile s of
        None \<Rightarrow> (s\<lparr>alerts := alerts s @ [''Please upload an image first.'']\<rparr>, None)
      | Some file \<Rightarrow> (setLoadingState True s, Some file))"

definition convertAfterRead ::
  "jserror + jsvalue \<Rightarrow> state \<Rightarrow> state \<times> GenerateContentParameters option" where
  "convertAfterRead settled s =
     (case settled of
        Inl error \<Rightarrow> (convertFailed error s, None)
      | Inr base64ImageData \<Rightarrow>
          (case uploadedFile s of
             None \<Rightarrow> (convertFailed TypeError s, None)
           | Some file \<Rightarrow>
               (let mimeType' = type file;
                    prompt = buildPrompt s;
                    request = convertRequest base64ImageData mimeType' prompt
                in (s\<lparr>remoteCalls := remoteCalls s @ [request]\<rparr>, Some request))))"

definition convertAfterCall :: "jserror + GenerateContentResponse \<Rightarrow> state \<Rightarrow> state" where
  "convertAfterCall settled s =
     (case settled of
        Inl error \<Rightarrow> convertFailed error s
      | Inr response \<Rightarrow>
          (case responseParts response of
             Inl error \<Rightarrow> convertFailed error s
           | Inr parts' \<Rightarrow>
               (case displayResult parts' s of
                  Inl error \<Rightarrow> convertFailed error s
                | Inr s \<Rightarrow> setLoadingState False s)))"

section \<open>Concrete inputs\<close>

text \<open>
  States, files and platforms on which the theorems below are evaluated: the page
  with no file chosen, the page after \<^verbatim>\<open>photo.png\<close> was chosen, and that page while
  an earlier result is shown.
\<close>

definition photo :: File where
  "photo = \<lparr>name = ''photo.png'', type = ''image/png''\<rparr>"

text \<open>A file whose media type contains a comma.\<close>

definition scan :: File where
  "scan = \<lparr>name = ''scan.dat'', type = ''application/x-scan,raw''\<rparr>"

definition idlePage :: state where
  \<open>idlePage =
     \<lparr>uploadedFile = None,
      fileInput_files = Some [],
      fileNameSpan_textContent = ''No file chosen'',
      originalImage_src = [],
      comicStyleSelect_value = ''manga'',
      keepBackgroundCheck_checked = True,
      addFrameCheck_checked = False,
      convertButton_disabled = True,
      convertButton_textContent = ''Convert to Comic'',
      comicOutputDiv =
        innerHTML ''<div class="placeholder">Your comic version will appear here.</div>'',
      downloadButton_href = [],
      downloadButton_style_display = ''none'',
      alerts = [],
      console_errors = [],
      remoteCalls = [],
      previewReads = []\<rparr>\<close>

definition readyPage :: state where
  "readyPage = handleFileChange (idlePage\<lparr>fileInput_files := Some [photo]\<rparr>)"

text \<open>
  A platform whose file reads succeed with a PNG data URL and whose remote call ends
  with the given outcome.
\<close>

definition browser :: "GenerateContentResponse promise \<Rightarrow> platform" where
  "browser outcome =
     \<lparr>readAsDataURL = (\<lambda>file. Fulfilled (''data:'' @ type file @ '';base64,iVBORw0KGgo='')),
      generateContent = (\<lambda>request. outcome)\<rparr>"

definition textPart :: Part where
  "textPart = \<lparr>inlineData = None, partText = Some ''Here is your comic.''\<rparr>"

definition comicPart :: Part where
  "comicPart =
     \<lparr>inlineData = Some \<lparr>data = JSString ''Q09NSUM='', mimeType = JSString ''image/png''\<rparr>,
      partText = None\<rparr>"

definition otherPart :: Part where
  "otherPart =
     \<lparr>inlineData = Some \<lparr>data = JSString ''T1RIRVI='', mimeType = JSString ''image/jpeg''\<rparr>,
      partText = None\<rparr>"

definition responseOf :: "Part list \<Rightarrow> GenerateContentResponse" where
  "responseOf ps = \<lparr>candidates = Some [\<lparr>content = Some \<lparr>parts = Some ps\<rparr>\<rparr>]\<rparr>"


section \<open>Strings: containment and splitting\<close>

text \<open>
  ``The string \<open>t\<close> contains \<open>p\<close>'' is \<^term>\<open>sublist p t\<close>. A pattern whose first
  character does not occur in a text is not contained in it, and a text that starts
  without that character can be skipped.
\<close>

lemma no_key_not_sublist: "k \<notin> set ys \<Longrightarrow> \<not> sublist (k # p) ys"
  by (meson list.set_intros(1) set_mono_sublist subsetD)

lemma sublist_skip_no_key:
  "k \<notin> set xs \<Longrightarrow> sublist (k # p) (xs @ ys) \<Longrightarrow> sublist (k # p) ys"
  by (induction xs) (auto simp: sublist_Cons_right)

lemma split_no_sep: "sep \<notin> set s \<Longrightarrow> split sep s = [s]"
  by (induction s) auto

lemma split_first: "sep \<notin> set pre \<Longrightarrow> split sep (pre @ sep # rest) = pre # split sep rest"
  by (induction pre) auto

lemma find_first:
  "\<forall>p \<in> set before. \<not> P p \<Longrightarrow> P x \<Longrightarrow> find P (before @ x # after) = Some x"
  by (induction before) auto


section \<open>Properties of the prompt builder\<close>

text \<open>
  The capital letters S, R and A each occur in the prompt only as the first letter of
  a style clause, of the background sentence and of the frame sentence.
\<close>

lemma base_keys:
  "CHR ''S'' \<notin> set baseInstruction" "CHR ''R'' \<notin> set baseInstruction"
  "CHR ''A'' \<notin> set baseInstruction"
  unfolding baseInstruction_def by simp_all

lemma styles_eq: "styles = [''manga'', ''western'', ''pop-art'', ''cel-shade'']"
  by (simp add: styles_def styleMap_def)

lemma style_lookup: "style \<in> set styles \<Longrightarrow> \<exists>clause. map_of styleMap style = Some clause"
  by (auto simp: styles_eq styleMap_def)

lemma clause_shape:
  "map_of styleMap k = Some c \<Longrightarrow>
   \<exists>r. c = CHR ''S'' # r \<and> CHR ''S'' \<notin> set r \<and> CHR ''R'' \<notin> set r \<and> CHR ''A'' \<notin> set r"
  by (auto simp: styleMap_def split: if_splits)

lemma clause_prefix:
  "map_of styleMap k = Some c \<Longrightarrow> map_of styleMap k' = Some c' \<Longrightarrow> k \<noteq> k' \<Longrightarrow>
   \<not> prefix c' (c @ t)"
  by (auto simp: styleMap_def split: if_splits)

lemma background_keys:
  "CHR ''S'' \<notin> set backgroundClause" "CHR ''A'' \<notin> set backgroundClause"
  "\<exists>r. backgroundClause = CHR ''R'' # r"
  unfolding backgroundClause_def by simp_all

lemma frame_keys:
  "CHR ''S'' \<notin> set frameClause" "CHR ''R'' \<notin> set frameClause"
  "\<exists>r. frameClause = CHR ''A'' # r"
  unfolding frameClause_def by simp_all

lemma buildPrompt_eq:
  "buildPrompt s =
     baseInstruction @ '' '' @ ToString (styleMap_get (comicStyleSelect_value s))
     @ (if keepBackgroundCheck_checked s then [] else '' '' @ backgroundClause)
     @ (if addFrameCheck_checked s then '' '' @ frameClause else [])"
  by (simp add: buildPrompt_def Let_def backgroundClause_def frameClause_def)

lemma styleMap_get_own: "map_of styleMap k = Some c \<Longrightarrow> styleMap_get k = JSString c"
  by (simp add: styleMap_get_def)

lemma other_style_absent:
  assumes c: "map_of styleMap k = Some c" and c': "map_of styleMap k' = Some c'"
    and ne: "k \<noteq> k'" and t: "CHR ''S'' \<notin> set t"
  shows "\<not> sublist c' (baseInstruction @ '' '' @ c @ t)"
proof
  assume sub: "sublist c' (baseInstruction @ '' '' @ c @ t)"
  obtain r where r: "c = CHR ''S'' # r" "CHR ''S'' \<notin> set r"
    using clause_shape [OF c] by blast
  obtain p where p: "c' = CHR ''S'' # p"
    using clause_shape [OF c'] by blast
  have "CHR ''S'' \<notin> set (baseInstruction @ '' '')"
    using base_keys(1) by simp
  moreover have "sublist (CHR ''S'' # p) ((baseInstruction @ '' '') @ c @ t)"
    using sub p by simp
  ultimately have "sublist (CHR ''S'' # p) (c @ t)"
    by (rule sublist_skip_no_key)
  then have "prefix c' (c @ t) \<or> sublist (CHR ''S'' # p) (r @ t)"
    using r(1) p by (simp add: sublist_Cons_right)
  moreover have "\<not> prefix c' (c @ t)"
    using clause_prefix [OF c c' ne] .
  moreover have "\<not> sublist (CHR ''S'' # p) (r @ t)"
    using r(2) t by (intro no_key_not_sublist) simp
  ultimately show False by blast
qed

lemma tail_no_S:
  "CHR ''S'' \<notin> set ((if kb then [] else '' '' @ backgroundClause) @ (if af then '' '' @ frameClause else []))"
  using background_keys(1) frame_keys(1) by simp

lemma background_iff:
  assumes c: "map_of styleMap (comicStyleSelect_value s) = Some c"
  shows "sublist backgroundClause (buildPrompt s) \<longleftrightarrow> \<not> keepBackgroundCheck_checked s"
proof (cases "keepBackgroundCheck_checked s")
  case False
  have "buildPrompt s = (baseInstruction @ '' '' @ c @ '' '') @ backgroundClause
          @ (if addFrameCheck_checked s then '' '' @ frameClause else [])"
    using False by (simp add: buildPrompt_eq styleMap_get_own [OF c])
  then show ?thesis using False by (metis sublist_appendI)
next
  case True
  obtain r where r: "c = CHR ''S'' # r" "CHR ''R'' \<notin> set r"
    using clause_shape [OF c] by blast
  obtain q where q: "backgroundClause = CHR ''R'' # q"
    using background_keys(3) by blast
  have "CHR ''R'' \<notin> set (buildPrompt s)"
    using True r base_keys(2) frame_keys(2)
    by (simp add: buildPrompt_eq styleMap_get_own [OF c])
  then have "\<not> sublist (CHR ''R'' # q) (buildPrompt s)"
    by (rule no_key_not_sublist)
  then show ?thesis using True q by simp
qed

lemma frame_iff:
  assumes c: "map_of styleMap (comicStyleSelect_value s) = Some c"
  shows "sublist frameClause (buildPrompt s) \<longleftrightarrow> addFrameCheck_checked s"
proof (cases "addFrameCheck_checked s")
  case True
  have "buildPrompt s = (baseInstruction @ '' '' @ c
          @ (if keepBackgroundCheck_checked s then [] else '' '' @ backgroundClause) @ '' '')
          @ frameClause"
    using True by (simp add: buildPrompt_eq styleMap_get_own [OF c])
  then show ?thesis using True by (metis sublist_append_leftI)
next
  case False
  obtain r where r: "c = CHR ''S'' # r" "CHR ''A'' \<notin> set r"
    using clause_shape [OF c] by blast
  obtain q where q: "frameClause = CHR ''A'' # q"
    using frame_keys(3) by blast
  have "CHR ''A'' \<notin> set (buildPrompt s)"
    using False r base_keys(3) background_keys(2)
    by (simp add: buildPrompt_eq styleMap_get_own [OF c])
  then have "\<not> sublist (CHR ''A'' # q) (buildPrompt s)"
    by (rule no_key_not_sublist)
  then show ?thesis using False q by simp
qed

lemma style_present:
  assumes c: "map_of styleMap (comicStyleSelect_value s) = Some c"
  shows "sublist c (buildPrompt s)"
proof -
  have "buildPrompt s = (baseInstruction @ '' '') @ c
          @ ((if keepBackgroundCheck_checked s then [] else '' '' @ backgroundClause)
             @ (if addFrameCheck_checked s then '' '' @ frameClause else []))"
    by (simp add: buildPrompt_eq styleMap_get_own [OF c])
  then show ?thesis by (metis sublist_appendI)
qed

lemma style_absent:
  assumes c: "map_of styleMap (comicStyleSelect_value s) = Some c"
    and c': "map_of styleMap k' = Some c'" and ne: "k' \<noteq> comicStyleSelect_value s"
  shows "\<not> sublist c' (buildPrompt s)"
  using other_style_absent [OF c c' ne [symmetric] tail_no_S]
  by (simp add: buildPrompt_eq styleMap_get_own [OF c])

lemma buildPrompt_inj:
  assumes s: "comicStyleSelect_value s \<in> set styles" and s': "comicStyleSelect_value s' \<in> set styles"
    and eq: "buildPrompt s' = buildPrompt s"
  shows "comicStyleSelect_value s' = comicStyleSelect_value s
         \<and> keepBackgroundCheck_checked s' = keepBackgroundCheck_checked s
         \<and> addFrameCheck_checked s' = addFrameCheck_checked s"
proof -
  obtain c where c: "map_of styleMap (comicStyleSelect_value s) = Some c"
    using style_lookup [OF s] by blast
  obtain c' where c': "map_of styleMap (comicStyleSelect_value s') = Some c'"
    using style_lookup [OF s'] by blast
  have "sublist c' (buildPrompt s)"
    using style_present [OF c'] eq by simp
  then have "comicStyleSelect_value s' = comicStyleSelect_value s"
    using style_absent [OF c c'] by blast
  moreover have "keepBackgroundCheck_checked s' = keepBackgroundCheck_checked s"
    using background_iff [OF c] background_iff [OF c'] eq by simp
  moreover have "addFrameCheck_checked s' = addFrameCheck_checked s"
    using frame_iff [OF c] frame_iff [OF c'] eq by simp
  ultimately show ?thesis by simp
qed

lemma buildPrompt_card:
  "card {buildPrompt s | s. comicStyleSelect_value s \<in> set styles} = 16"
proof -
  define opts where
    "opts = (\<lambda>(st, kb, af). idlePage\<lparr>comicStyleSelect_value := st,
               keepBackgroundCheck_checked := kb, addFrameCheck_checked := af\<rparr>)"
  define A :: "(string \<times> bool \<times> bool) set" where "A = set styles \<times> {True, False} \<times> {True, False}"
  have img: "{buildPrompt s | s. comicStyleSelect_value s \<in> set styles} = (\<lambda>x. buildPrompt (opts x)) ` A"
  proof (intro equalityI subsetI)
    fix p assume "p \<in> {buildPrompt s | s. comicStyleSelect_value s \<in> set styles}"
    then obtain s where s: "p = buildPrompt s" "comicStyleSelect_value s \<in> set styles" by blast
    let ?x = "(comicStyleSelect_value s, keepBackgroundCheck_checked s, addFrameCheck_checked s)"
    have "buildPrompt (opts ?x) = buildPrompt s"
      by (simp add: opts_def buildPrompt_eq)
    moreover have "?x \<in> A" using s(2) by (auto simp: A_def)
    ultimately show "p \<in> (\<lambda>x. buildPrompt (opts x)) ` A" using s(1) by (metis imageI)
  next
    fix p assume "p \<in> (\<lambda>x. buildPrompt (opts x)) ` A"
    then obtain st kb af where "p = buildPrompt (opts (st, kb, af))" "st \<in> set styles"
      by (auto simp: A_def)
    moreover have "comicStyleSelect_value (opts (st, kb, af)) = st" by (simp add: opts_def)
    ultimately show "p \<in> {buildPrompt s | s. comicStyleSelect_value s \<in> set styles}"
      by (simp only: mem_Collect_eq) metis
  qed
  have inj: "inj_on (\<lambda>x. buildPrompt (opts x)) A"
  proof (rule inj_onI)
    fix x y assume x: "x \<in> A" and y: "y \<in> A"
      and eq: "buildPrompt (opts x) = buildPrompt (opts y)"
    obtain st kb af where xe: "x = (st, kb, af)" by (cases x) auto
    obtain st' kb' af' where ye: "y = (st', kb', af')" by (cases y) auto
    have "comicStyleSelect_value (opts x) \<in> set styles" "comicStyleSelect_value (opts y) \<in> set styles"
      using x y by (auto simp: A_def opts_def)
    from buildPrompt_inj [OF this(2) this(1) eq]
    show "x = y" by (simp add: xe ye opts_def)
  qed
  have "card A = 16"
    unfolding A_def by (simp add: card_cartesian_product styles_eq)
  then show ?thesis
    using card_image [OF inj] img by simp
qed

section \<open>Properties of the conversion flow\<close>

lemma buildPrompt_setLoadingState: "buildPrompt (setLoadingState b s) = buildPrompt s"
  by (simp add: buildPrompt_eq setLoadingState_def Let_def)

lemma setLoadingState_True:
  \<open>setLoadingState True s =
     s\<lparr>convertButton_disabled := True, convertButton_textContent := ''Converting...'',
       comicOutputDiv := [Markup ''<div class="spinner"></div>''],
       downloadButton_style_display := ''none''\<rparr>\<close>
  by (simp add: setLoadingState_def innerHTML_def)

lemma setLoadingState_False:
  "setLoadingState False s =
     s\<lparr>convertButton_disabled := False, convertButton_textContent := ''Convert to Comic''\<rparr>"
  by (simp add: setLoadingState_def)

lemma handleConvertToComic_file:
  assumes "uploadedFile s = Some file"
  shows \<open>handleConvertToComic pf s =
     (case convertBody pf file (setLoadingState True s) of
        Suspended s' \<Rightarrow> s'
      | Threw error s' \<Rightarrow>
          s'\<lparr>console_errors := console_errors s' @ [(''Error generating comic image:'', error)],
             comicOutputDiv := [Markup ''<p style="color: red;">An error occurred. Please try again.</p>''],
             convertButton_disabled := False, convertButton_textContent := ''Convert to Comic''\<rparr>
      | Completed s' \<Rightarrow>
          s'\<lparr>convertButton_disabled := False, convertButton_textContent := ''Convert to Comic''\<rparr>)\<close>
  using assms
  by (simp add: handleConvertToComic_def setLoadingState_False innerHTML_def split: completion.splits)

lemma displayResult_image:
  assumes "\<forall>p \<in> set before. inlineData p = None" and "inlineData imagePart = Some blob"
  shows "displayResult (Some (before @ imagePart # after)) s =
           Inr (s\<lparr>comicOutputDiv := [ImageElement (imageUrl (mimeType blob) (data blob)) ''Generated comic-style image''],
                  downloadButton_href := imageUrl (mimeType blob) (data blob),
                  downloadButton_style_display := ''inline-block''\<rparr>)"
proof -
  have "find (\<lambda>part. inlineData part \<noteq> None) (before @ imagePart # after) = Some imagePart"
    using assms by (intro find_first) auto
  then show ?thesis
    using assms(2) by (simp add: displayResult_def innerHTML_def Let_def)
qed


lemma responseParts_ok:
  assumes "candidates response = Some (candidate # others)" "content candidate = Some c"
  shows "responseParts response = Inr (parts c)"
  using assms by (simp add: responseParts_def)

lemma convertBody_response:
  assumes "fileToBase64 pf file = Fulfilled b"
    and "generateContent pf (convertRequest b (type file) (buildPrompt s)) = Fulfilled response"
  shows "convertBody pf file s =
     (let s' = s\<lparr>remoteCalls := remoteCalls s @ [convertRequest b (type file) (buildPrompt s)]\<rparr>
      in case responseParts response of
           Inl error \<Rightarrow> Threw error s'
         | Inr parts' \<Rightarrow>
             (case displayResult parts' s' of Inl error \<Rightarrow> Threw error s' | Inr s'' \<Rightarrow> Completed s''))"
  using assms by (simp add: convertBody_def Let_def)

lemma convertBody_read_rejected:
  assumes "fileToBase64 pf file = Rejected e"
  shows "convertBody pf file s = Threw e s"
  using assms by (simp add: convertBody_def)

lemma convertBody_call_rejected:
  assumes "fileToBase64 pf file = Fulfilled b"
    and "generateContent pf (convertRequest b (type file) (buildPrompt s)) = Rejected e"
  shows "convertBody pf file s =
           Threw e (s\<lparr>remoteCalls := remoteCalls s @ [convertRequest b (type file) (buildPrompt s)]\<rparr>)"
  using assms by (simp add: convertBody_def Let_def)

lemma convertBody_settled:
  assumes "fileToBase64 pf file \<noteq> Pending"
    and "\<forall>b. fileToBase64 pf file = Fulfilled b \<longrightarrow>
           generateContent pf (convertRequest b (type file) (buildPrompt s)) \<noteq> Pending"
  shows "convertBody pf file s \<noteq> Suspended s'"
  using assms
  by (auto simp: convertBody_def Let_def split: promise.splits sum.splits)

lemma handleConvertToComic_settled:
  assumes sel: "uploadedFile s = Some file"
    and "convertBody pf file (setLoadingState True s) \<noteq> Suspended (handleConvertToComic pf s)"
  shows "\<not> convertButton_disabled (handleConvertToComic pf s)
       \<and> convertButton_textContent (handleConvertToComic pf s) = ''Convert to Comic''"
  using assms(2) unfolding handleConvertToComic_file [OF sel]
  by (cases "convertBody pf file (setLoadingState True s)") simp_all

text \<open>
  On a data URL with exactly one comma, whatever precedes it, \<^const>\<open>fileToBase64\<close>
  resolves with everything after the comma.
\<close>

lemma fileToBase64_one_comma:
  assumes "readAsDataURL pf file = Fulfilled (pre @ '','' @ payload)"
    and "CHR '','' \<notin> set pre" and "CHR '','' \<notin> set payload"
  shows "fileToBase64 pf file = Fulfilled (JSString payload)"
  using assms by (simp add: fileToBase64_def split_first split_no_sep index_def)

text \<open>
  Run without another handler in between, the pieces of the handler are the handler.
\<close>

lemma convertFailed_eq:
  \<open>convertFailed error s =
     s\<lparr>console_errors := console_errors s @ [(''Error generating comic image:'', error)],
       comicOutputDiv := [Markup ''<p style="color: red;">An error occurred. Please try again.</p>''],
       convertButton_disabled := False, convertButton_textContent := ''Convert to Comic''\<rparr>\<close>
  by (simp add: convertFailed_def setLoadingState_False innerHTML_def)

lemma handleConvertToComic_pieces:
  "handleConvertToComic pf s =
     (case convertStart s of
        (s, None) \<Rightarrow> s
      | (s, Some file) \<Rightarrow>
          (case fileToBase64 pf file of
             Pending \<Rightarrow> s
           | Rejected error \<Rightarrow> fst (convertAfterRead (Inl error) s)
           | Fulfilled b \<Rightarrow>
               (case convertAfterRead (Inr b) s of
                  (s, None) \<Rightarrow> s
                | (s, Some request) \<Rightarrow>
                    (case generateContent pf request of
                       Pending \<Rightarrow> s
                     | Rejected error \<Rightarrow> convertAfterCall (Inl error) s
                     | Fulfilled response \<Rightarrow> convertAfterCall (Inr response) s))))"
proof (cases "uploadedFile s")
  case None
  then show ?thesis
    by (simp add: handleConvertToComic_def convertStart_def)
next
  case (Some f)
  have up: "uploadedFile (setLoadingState True s) = Some f"
    using Some by (simp add: setLoadingState_True)
  show ?thesis
    using Some up
    by (simp add: handleConvertToComic_file [OF Some] convertStart_def convertBody_def
        convertAfterRead_def convertAfterCall_def convertFailed_eq setLoadingState_False Let_def
        split: promise.splits sum.splits)
qed

text \<open>The concrete inputs, evaluated.\<close>

lemma fileToBase64_browser:
  "fileToBase64 (browser outcome) photo = Fulfilled (JSString ''iVBORw0KGgo='')"
  by (simp add: fileToBase64_def browser_def photo_def index_def)

lemma readyPage_file: "uploadedFile readyPage = Some photo"
  by (simp add: readyPage_def handleFileChange_def idlePage_def)

lemma generateContent_browser: "generateContent (browser outcome) request = outcome"
  by (simp add: browser_def)

section \<open>The claims\<close>

text \<open>
  C1. When the style selector holds one of the four enumerated values, the string
  returned by \<^const>\<open>buildPrompt\<close> contains the clause that \<^const>\<open>styleMap\<close> maps to
  that value, verbatim, and contains none of the clauses mapped to the other three
  values.
\<close>

theorem buildPrompt_style_clause:
  assumes "comicStyleSelect_value s \<in> {''manga'', ''western'', ''pop-art'', ''cel-shade''}"
  shows "\<exists>clause. map_of styleMap (comicStyleSelect_value s) = Some clause
           \<and> sublist clause (buildPrompt s)
           \<and> (\<forall>k c. k \<noteq> comicStyleSelect_value s \<and> map_of styleMap k = Some c
                 \<longrightarrow> \<not> sublist c (buildPrompt s))"
proof -
  obtain clause where c: "map_of styleMap (comicStyleSelect_value s) = Some clause"
    using style_lookup [of "comicStyleSelect_value s"] assms by (auto simp: styles_eq)
  show ?thesis
    using c style_present [OF c] style_absent [OF c] by blast
qed

text \<open>At the idle page, whose style is manga: the manga clause is there, the Western one is not.\<close>

theorem buildPrompt_style_clause_witness:
  "sublist ''Style it like black-and-white manga, with screentone halftone, fine linework, and dynamic speed lines.''
     (buildPrompt idlePage)
   \<and> \<not> sublist ''Style it like a classic Western comic, with bold ink lines, flat cel-shading, and CMYK halftone dots.''
     (buildPrompt idlePage)"
proof -
  have h: "comicStyleSelect_value idlePage \<in> {''manga'', ''western'', ''pop-art'', ''cel-shade''}"
    by (simp add: idlePage_def)
  have v: "comicStyleSelect_value idlePage = ''manga''"
    by (simp add: idlePage_def)
  obtain clause where c: "map_of styleMap (comicStyleSelect_value idlePage) = Some clause"
      "sublist clause (buildPrompt idlePage)"
    and others: "\<And>k c. k \<noteq> comicStyleSelect_value idlePage \<Longrightarrow> map_of styleMap k = Some c
                   \<Longrightarrow> \<not> sublist c (buildPrompt idlePage)"
    using buildPrompt_style_clause [OF h] by blast
  have "clause = ''Style it like black-and-white manga, with screentone halftone, fine linework, and dynamic speed lines.''"
    using c(1) by (simp add: v styleMap_def)
  then have "sublist ''Style it like black-and-white manga, with screentone halftone, fine linework, and dynamic speed lines.''
      (buildPrompt idlePage)"
    using c(2) by (simp only:)
  moreover have "\<not> sublist ''Style it like a classic Western comic, with bold ink lines, flat cel-shading, and CMYK halftone dots.''
      (buildPrompt idlePage)"
    by (rule others [of "''western''"]) (simp_all add: v styleMap_def)
  ultimately show ?thesis by (rule conjI)
qed

text \<open>
  C2. For each of the four styles and each value of the two check boxes, the prompt
  contains the background sentence exactly when \<^verbatim>\<open>keepBackground\<close> is unchecked and
  the frame sentence exactly when \<^verbatim>\<open>addFrame\<close> is checked; it is the base
  instruction, the style clause, the background sentence and the frame sentence in
  that order; two selections with the same prompt are the same selection, so the 16
  selections give 16 different prompts.
\<close>

theorem buildPrompt_flags:
  assumes "comicStyleSelect_value s \<in> {''manga'', ''western'', ''pop-art'', ''cel-shade''}"
  shows "(sublist backgroundClause (buildPrompt s) \<longleftrightarrow> \<not> keepBackgroundCheck_checked s)
       \<and> (sublist frameClause (buildPrompt s) \<longleftrightarrow> addFrameCheck_checked s)
       \<and> (\<exists>clause. map_of styleMap (comicStyleSelect_value s) = Some clause
            \<and> buildPrompt s =
                baseInstruction @ '' '' @ clause
                @ (if keepBackgroundCheck_checked s then [] else '' '' @ backgroundClause)
                @ (if addFrameCheck_checked s then '' '' @ frameClause else []))
       \<and> (\<forall>s'. comicStyleSelect_value s' \<in> {''manga'', ''western'', ''pop-art'', ''cel-shade''}
              \<and> buildPrompt s' = buildPrompt s
            \<longrightarrow> comicStyleSelect_value s' = comicStyleSelect_value s
              \<and> keepBackgroundCheck_checked s' = keepBackgroundCheck_checked s
              \<and> addFrameCheck_checked s' = addFrameCheck_checked s)
       \<and> card {buildPrompt s' | s'.
            comicStyleSelect_value s' \<in> {''manga'', ''western'', ''pop-art'', ''cel-shade''}} = 16"
proof -
  have four: "{''manga'', ''western'', ''pop-art'', ''cel-shade''} = set styles"
    by (simp add: styles_eq)
  have s: "comicStyleSelect_value s \<in> set styles"
    using assms four by simp
  obtain c where c: "map_of styleMap (comicStyleSelect_value s) = Some c"
    using style_lookup [OF s] by blast
  have "buildPrompt s =
          baseInstruction @ '' '' @ c
          @ (if keepBackgroundCheck_checked s then [] else '' '' @ backgroundClause)
          @ (if addFrameCheck_checked s then '' '' @ frameClause else [])"
    by (simp add: buildPrompt_eq styleMap_get_own [OF c])
  with c have "\<exists>clause. map_of styleMap (comicStyleSelect_value s) = Some clause
            \<and> buildPrompt s =
                baseInstruction @ '' '' @ clause
                @ (if keepBackgroundCheck_checked s then [] else '' '' @ backgroundClause)
                @ (if addFrameCheck_checked s then '' '' @ frameClause else [])"
    by blast
  moreover have "\<forall>s'. comicStyleSelect_value s' \<in> {''manga'', ''western'', ''pop-art'', ''cel-shade''}
              \<and> buildPrompt s' = buildPrompt s
            \<longrightarrow> comicStyleSelect_value s' = comicStyleSelect_value s
              \<and> keepBackgroundCheck_checked s' = keepBackgroundCheck_checked s
              \<and> addFrameCheck_checked s' = addFrameCheck_checked s"
    unfolding four using buildPrompt_inj [OF s] by blast
  moreover have "card {buildPrompt s' | s'.
            comicStyleSelect_value s' \<in> {''manga'', ''western'', ''pop-art'', ''cel-shade''}} = 16"
    unfolding four by (rule buildPrompt_card)
  ultimately show ?thesis
    using background_iff [OF c] frame_iff [OF c] by blast
qed

text \<open>At the idle page (background kept, no frame), and with the check boxes flipped.\<close>

theorem buildPrompt_flags_witness:
  "\<not> sublist backgroundClause (buildPrompt idlePage)
   \<and> \<not> sublist frameClause (buildPrompt idlePage)
   \<and> sublist backgroundClause (buildPrompt (idlePage\<lparr>keepBackgroundCheck_checked := False\<rparr>))
   \<and> buildPrompt (idlePage\<lparr>keepBackgroundCheck_checked := False, addFrameCheck_checked := True\<rparr>) =
       baseInstruction
       @ '' Style it like black-and-white manga, with screentone halftone, fine linework, and dynamic speed lines.''
       @ '' Replace the background with a clean white background.''
       @ '' Add a classic comic book panel frame around the image, including a small empty caption box at the bottom.''"
proof -
  have "\<not> sublist backgroundClause (buildPrompt idlePage) \<and> \<not> sublist frameClause (buildPrompt idlePage)"
    using buildPrompt_flags [of idlePage] by (simp add: idlePage_def)
  moreover have "sublist backgroundClause (buildPrompt (idlePage\<lparr>keepBackgroundCheck_checked := False\<rparr>))"
    using buildPrompt_flags [of "idlePage\<lparr>keepBackgroundCheck_checked := False\<rparr>"]
    by (simp add: idlePage_def)
  moreover have "buildPrompt (idlePage\<lparr>keepBackgroundCheck_checked := False, addFrameCheck_checked := True\<rparr>) =
       baseInstruction
       @ '' Style it like black-and-white manga, with screentone halftone, fine linework, and dynamic speed lines.''
       @ '' Replace the background with a clean white background.''
       @ '' Add a classic comic book panel frame around the image, including a small empty caption box at the bottom.''"
    using buildPrompt_flags [of "idlePage\<lparr>keepBackgroundCheck_checked := False, addFrameCheck_checked := True\<rparr>"]
    by (simp add: idlePage_def styleMap_def backgroundClause_def frameClause_def)
  ultimately show ?thesis by blast
qed

text \<open>
  C3. The convert action with no file selected shows the warning and does nothing
  else: no remote call is made, and the uploaded-file slot, the preview, the result
  container, the download control and the convert control (every field of the state
  but the log of alerts) keep their values.
\<close>

theorem convert_without_file:
  assumes "uploadedFile s = None"
  shows "handleConvertToComic pf s = s\<lparr>alerts := alerts s @ [''Please upload an image first.'']\<rparr>
       \<and> remoteCalls (handleConvertToComic pf s) = remoteCalls s"
  using assms by (simp add: handleConvertToComic_def)

text \<open>At the idle page, which has no file.\<close>

theorem convert_without_file_witness:
  "handleConvertToComic (browser Pending) idlePage =
     idlePage\<lparr>alerts := [''Please upload an image first.'']\<rparr>
   \<and> remoteCalls (handleConvertToComic (browser Pending) idlePage) = []"
  using convert_without_file [of idlePage "browser Pending"]
  by (simp add: idlePage_def)

text \<open>
  C4. When the remote call resolves with a response whose parts include one with
  inline data, the flow takes the first such part: the result container holds one
  image whose source is the data URL built from that part's media type and base64
  data, and the download control is visible with the same URL as its target.
\<close>

theorem convert_shows_first_image:
  assumes sel: "uploadedFile s = Some file"
    and read: "fileToBase64 pf file = Fulfilled b"
    and call: "generateContent pf (convertRequest b (type file) (buildPrompt s)) = Fulfilled response"
    and resp: "candidates response = Some (candidate # others)" "content candidate = Some c"
              "parts c = Some (before @ imagePart # after)"
    and first: "\<forall>p \<in> set before. inlineData p = None" "inlineData imagePart = Some blob"
  shows "comicOutputDiv (handleConvertToComic pf s) =
           [ImageElement (''data:'' @ ToString (mimeType blob) @ '';base64,'' @ ToString (data blob))
              ''Generated comic-style image'']
       \<and> downloadButton_href (handleConvertToComic pf s) =
           ''data:'' @ ToString (mimeType blob) @ '';base64,'' @ ToString (data blob)
       \<and> downloadButton_style_display (handleConvertToComic pf s) = ''inline-block''"
proof -
  let ?s1 = "setLoadingState True s"
  have call': "generateContent pf (convertRequest b (type file) (buildPrompt ?s1)) = Fulfilled response"
    using call by (simp add: buildPrompt_setLoadingState)
  have "convertBody pf file ?s1 =
          Completed (?s1\<lparr>remoteCalls := remoteCalls ?s1 @ [convertRequest b (type file) (buildPrompt ?s1)],
                         comicOutputDiv := [ImageElement (imageUrl (mimeType blob) (data blob)) ''Generated comic-style image''],
                         downloadButton_href := imageUrl (mimeType blob) (data blob),
                         downloadButton_style_display := ''inline-block''\<rparr>)"
    by (simp add: convertBody_response [OF read call'] responseParts_ok [OF resp(1,2)] resp(3)
        displayResult_image [OF first] Let_def)
  then show ?thesis
    by (simp add: handleConvertToComic_file [OF sel] imageUrl_def)
qed

text \<open>A response with a text part and two image parts: the first image part is shown.\<close>

theorem convert_shows_first_image_witness:
  "comicOutputDiv (handleConvertToComic (browser (Fulfilled (responseOf [textPart, comicPart, otherPart]))) readyPage) =
     [ImageElement ''data:image/png;base64,Q09NSUM='' ''Generated comic-style image'']
   \<and> downloadButton_href (handleConvertToComic (browser (Fulfilled (responseOf [textPart, comicPart, otherPart]))) readyPage) =
     ''data:image/png;base64,Q09NSUM=''
   \<and> downloadButton_style_display (handleConvertToComic (browser (Fulfilled (responseOf [textPart, comicPart, otherPart]))) readyPage) =
     ''inline-block''"
proof -
  let ?c = "\<lparr>parts = Some [textPart, comicPart, otherPart]\<rparr>"
  let ?blob = "\<lparr>data = JSString ''Q09NSUM='', mimeType = JSString ''image/png''\<rparr>"
  have r1: "candidates (responseOf [textPart, comicPart, otherPart]) = Some (\<lparr>content = Some ?c\<rparr> # [])"
    by (simp add: responseOf_def)
  have r2: "content \<lparr>content = Some ?c\<rparr> = Some ?c"
    by simp
  have r3: "parts ?c = Some ([textPart] @ comicPart # [otherPart])"
    by simp
  have f1: "\<forall>p \<in> set [textPart]. inlineData p = None"
    by (simp add: textPart_def)
  have f2: "inlineData comicPart = Some ?blob"
    by (simp add: comicPart_def)
  from convert_shows_first_image
    [OF readyPage_file fileToBase64_browser generateContent_browser r1 r2 r3 f1 f2]
  show ?thesis by simp
qed




text \<open>
  C6. With a file selected, whenever the file read and the remote call settle
  (the read fails, the call throws, the response has an image or has none), the
  cleanup step has run: the convert control is enabled and labelled
  ``Convert to Comic''. When the remote call throws, and when the read fails, the
  result container shows the generic error message.
\<close>

theorem convert_always_reenables:
  assumes sel: "uploadedFile s = Some file"
    and read: "fileToBase64 pf file \<noteq> Pending"
    and call: "\<forall>b. fileToBase64 pf file = Fulfilled b \<longrightarrow>
                 generateContent pf (convertRequest b (type file) (buildPrompt s)) \<noteq> Pending"
  shows \<open>\<not> convertButton_disabled (handleConvertToComic pf s)
       \<and> convertButton_textContent (handleConvertToComic pf s) = ''Convert to Comic''
       \<and> (\<forall>b e. fileToBase64 pf file = Fulfilled b
                \<and> generateContent pf (convertRequest b (type file) (buildPrompt s)) = Rejected e
            \<longrightarrow> comicOutputDiv (handleConvertToComic pf s) =
                  [Markup ''<p style="color: red;">An error occurred. Please try again.</p>''])
       \<and> (\<forall>e. fileToBase64 pf file = Rejected e
            \<longrightarrow> comicOutputDiv (handleConvertToComic pf s) =
                  [Markup ''<p style="color: red;">An error occurred. Please try again.</p>''])\<close>
proof -
  let ?s1 = "setLoadingState True s"
  have "convertBody pf file ?s1 \<noteq> Suspended (handleConvertToComic pf s)"
    using read call by (intro convertBody_settled) (simp_all add: buildPrompt_setLoadingState)
  note enabled = handleConvertToComic_settled [OF sel this]
  have thrown: \<open>comicOutputDiv (handleConvertToComic pf s) =
          [Markup ''<p style="color: red;">An error occurred. Please try again.</p>'']\<close>
    if "fileToBase64 pf file = Fulfilled b"
      and "generateContent pf (convertRequest b (type file) (buildPrompt s)) = Rejected e" for b e
  proof -
    have "generateContent pf (convertRequest b (type file) (buildPrompt ?s1)) = Rejected e"
      using that(2) by (simp add: buildPrompt_setLoadingState)
    from convertBody_call_rejected [OF that(1) this] show ?thesis
      by (simp add: handleConvertToComic_file [OF sel])
  qed
  have unread: \<open>comicOutputDiv (handleConvertToComic pf s) =
          [Markup ''<p style="color: red;">An error occurred. Please try again.</p>'']\<close>
    if "fileToBase64 pf file = Rejected e" for e
    using convertBody_read_rejected [OF that]
    by (simp add: handleConvertToComic_file [OF sel])
  show ?thesis
    using enabled thrown unread by blast
qed

text \<open>A remote call that rejects.\<close>

theorem convert_always_reenables_witness:
  \<open>\<not> convertButton_disabled (handleConvertToComic (browser (Rejected (ApiError ''503''))) readyPage)
   \<and> convertButton_textContent (handleConvertToComic (browser (Rejected (ApiError ''503''))) readyPage) =
       ''Convert to Comic''
   \<and> comicOutputDiv (handleConvertToComic (browser (Rejected (ApiError ''503''))) readyPage) =
       [Markup ''<p style="color: red;">An error occurred. Please try again.</p>'']\<close>
  using convert_always_reenables [OF readyPage_file, of "browser (Rejected (ApiError ''503''))"]
  by (simp add: fileToBase64_browser generateContent_browser)

text \<open>
  C7. The round trip of the image codec (encode the file to its payload, wrap the
  payload with the file's media type, get the data URL of the file back) is what
  \<^const>\<open>fileToBase64\<close> is documented to support: it ``resolves with the base64
  string'' after it has ``removed the prefix''. The code does not do so for a file
  whose media type contains a comma: \<^verbatim>\<open>split(',')[1]\<close> is the piece between the
  first comma and the second, here \<^verbatim>\<open>raw;base64\<close>, which is neither the payload nor
  everything after the first comma, and wrapping it does not give back the URL that
  was read.
\<close>

theorem fileToBase64_comma_in_type:
  "readAsDataURL (browser Pending) scan = Fulfilled ''data:application/x-scan,raw;base64,iVBORw0KGgo=''
   \<and> fileToBase64 (browser Pending) scan = Fulfilled (JSString ''raw;base64'')
   \<and> fileToBase64 (browser Pending) scan \<noteq> Fulfilled (JSString ''iVBORw0KGgo='')
   \<and> imageUrl (JSString (type scan)) (JSString ''raw;base64'') = ''data:application/x-scan,raw;base64,raw;base64''
   \<and> imageUrl (JSString (type scan)) (JSString ''raw;base64'') \<noteq> ''data:application/x-scan,raw;base64,iVBORw0KGgo=''"
  by (simp add: fileToBase64_def browser_def scan_def imageUrl_def index_def)

text \<open>
  C8, as amended. For a style value outside the four keys, \<^const>\<open>buildPrompt\<close>
  still returns a string (it is a total function: nothing throws). In place of a style
  clause the prompt has the text \<^verbatim>\<open>undefined\<close> when the value names no property
  inherited from \<^verbatim>\<open>Object.prototype\<close>, and the string form of the inherited value
  when it names one; the background and frame sentences follow as usual.
\<close>

theorem buildPrompt_unknown_style:
  assumes "comicStyleSelect_value s \<notin> {''manga'', ''western'', ''pop-art'', ''cel-shade''}"
  shows "buildPrompt s =
           baseInstruction @ '' ''
           @ (case map_of objectPrototype (comicStyleSelect_value s) of
                None \<Rightarrow> ''undefined''
              | Some inherited \<Rightarrow> ToString inherited)
           @ (if keepBackgroundCheck_checked s then [] else '' '' @ backgroundClause)
           @ (if addFrameCheck_checked s then '' '' @ frameClause else [])
       \<and> (comicStyleSelect_value s \<notin> fst ` set objectPrototype \<longrightarrow>
            buildPrompt s =
              baseInstruction @ '' undefined''
              @ (if keepBackgroundCheck_checked s then [] else '' '' @ backgroundClause)
              @ (if addFrameCheck_checked s then '' '' @ frameClause else []))"
proof -
  have own: "map_of styleMap (comicStyleSelect_value s) = None"
    using assms by (simp add: styleMap_def)
  have "map_of objectPrototype (comicStyleSelect_value s) = None"
    if "comicStyleSelect_value s \<notin> fst ` set objectPrototype"
    using that by (simp add: map_of_eq_None_iff)
  then show ?thesis
    using own by (simp add: buildPrompt_eq styleMap_get_def split: option.splits)
qed

text \<open>The style value \<^verbatim>\<open>noir\<close>, which is no key and no inherited property.\<close>

theorem buildPrompt_unknown_style_witness:
  "buildPrompt (idlePage\<lparr>comicStyleSelect_value := ''noir''\<rparr>) = baseInstruction @ '' undefined''"
  using buildPrompt_unknown_style [of "idlePage\<lparr>comicStyleSelect_value := ''noir''\<rparr>"]
  by (simp add: idlePage_def objectPrototype_def)

text \<open>
  The statement for every value outside the four keys fails at \<^verbatim>\<open>__proto__\<close>,
  which every object literal inherits: the prompt then has \<^verbatim>\<open>[object Object]\<close>
  where the claim has \<^verbatim>\<open>undefined\<close>.
\<close>

theorem buildPrompt_unknown_style_counterexample:
  "comicStyleSelect_value (idlePage\<lparr>comicStyleSelect_value := ''__proto__''\<rparr>)
     \<notin> {''manga'', ''western'', ''pop-art'', ''cel-shade''}
   \<and> buildPrompt (idlePage\<lparr>comicStyleSelect_value := ''__proto__''\<rparr>) = baseInstruction @ '' [object Object]''
   \<and> buildPrompt (idlePage\<lparr>comicStyleSelect_value := ''__proto__''\<rparr>) \<noteq> baseInstruction @ '' undefined''"
  by (simp add: buildPrompt_eq idlePage_def styleMap_get_def styleMap_def objectPrototype_def)

text \<open>
  C9. When the remote call resolves with a response that has no \<^verbatim>\<open>candidates\<close>, an
  empty list of them, a first candidate without \<^verbatim>\<open>content\<close>, or a content without
  \<^verbatim>\<open>parts\<close>, reading the parts throws a TypeError inside the \<^verbatim>\<open>try\<close> block: the
  error is logged, the result container shows the generic error message and not the
  empty-result message, and the convert control is enabled again.
\<close>

theorem convert_malformed_response:
  assumes sel: "uploadedFile s = Some file"
    and read: "fileToBase64 pf file = Fulfilled b"
    and call: "generateContent pf (convertRequest b (type file) (buildPrompt s)) = Fulfilled response"
    and bad: "candidates response = None \<or> candidates response = Some []
       \<or> (\<exists>candidate others. candidates response = Some (candidate # others)
            \<and> (content candidate = None \<or> (\<exists>c. content candidate = Some c \<and> parts c = None)))"
  shows \<open>comicOutputDiv (handleConvertToComic pf s) =
           [Markup ''<p style="color: red;">An error occurred. Please try again.</p>'']
       \<and> comicOutputDiv (handleConvertToComic pf s) \<noteq>
           [Markup ''<p>Could not generate an image from the response.</p>'']
       \<and> console_errors (handleConvertToComic pf s) =
           console_errors s @ [(''Error generating comic image:'', TypeError)]
       \<and> \<not> convertButton_disabled (handleConvertToComic pf s)
       \<and> convertButton_textContent (handleConvertToComic pf s) = ''Convert to Comic''\<close>
proof -
  let ?s1 = "setLoadingState True s"
  let ?s2 = "?s1\<lparr>remoteCalls := remoteCalls ?s1 @ [convertRequest b (type file) (buildPrompt ?s1)]\<rparr>"
  have call': "generateContent pf (convertRequest b (type file) (buildPrompt ?s1)) = Fulfilled response"
    using call by (simp add: buildPrompt_setLoadingState)
  have "(case responseParts response of
           Inl error \<Rightarrow> Threw error ?s2
         | Inr parts' \<Rightarrow>
             (case displayResult parts' ?s2 of Inl error \<Rightarrow> Threw error ?s2 | Inr s'' \<Rightarrow> Completed s''))
        = Threw TypeError ?s2"
    using bad by (auto simp: responseParts_def displayResult_def)
  then have "convertBody pf file ?s1 = Threw TypeError ?s2"
    by (simp add: convertBody_response [OF read call'] Let_def)
  then show ?thesis
    by (simp add: handleConvertToComic_file [OF sel] setLoadingState_True)
qed

text \<open>A response with an empty list of candidates.\<close>

theorem convert_malformed_response_witness:
  \<open>comicOutputDiv (handleConvertToComic (browser (Fulfilled \<lparr>candidates = Some []\<rparr>)) readyPage) =
     [Markup ''<p style="color: red;">An error occurred. Please try again.</p>'']
   \<and> \<not> convertButton_disabled (handleConvertToComic (browser (Fulfilled \<lparr>candidates = Some []\<rparr>)) readyPage)\<close>
  using convert_malformed_response [OF readyPage_file fileToBase64_browser generateContent_browser,
      of "\<lparr>candidates = Some []\<rparr>"]
  by simp

text \<open>
  C10. The change event of the file input with an empty file list changes nothing:
  the handler returns the state it was given.
\<close>

theorem fileChange_empty:
  assumes "fileInput_files s = Some []"
  shows "handleFileChange s = s"
  using assms by (simp add: handleFileChange_def)

text \<open>The idle page, whose file list is empty.\<close>

theorem fileChange_empty_witness: "handleFileChange idlePage = idlePage"
  using fileChange_empty [of idlePage] by (simp add: idlePage_def)

end
